theory Spec2Isabelle
  imports Complex_Main "HOL-Library.Sublist"
begin

section \<open>Python values that reach the handlers\<close>

text \<open>
  The handlers of both generations read the request body with
  \<^verbatim>\<open>request.get_json(force=True, silent=True)\<close>, which yields the parsed JSON value, or
  \<open>None\<close> when the body is missing or is not JSON. A parsed JSON value is one of the
  Python values below. A Python float is a double: a binary rational, an infinity or a
  NaN (\<open>-0.0\<close> is identified with \<open>0.0\<close>: the two are equal and both falsy). A dict is an
  association list, looked up with \<open>map_of\<close>.
\<close>

datatype pyfloat = Fin rat | PosInf | NegInf | NaN

datatype pyval =
    PNone
  | PBool bool
  | PInt int
  | PFloat pyfloat
  | PStr string
  | PList "pyval list"
  | PDict "(string \<times> pyval) list"

datatype pyexn = ValueError | TypeError | OverflowError | AttributeError | KeyError

text \<open>
  The conversions of CPython whose definition is not part of this repository are
  parameters of the model: \<open>float\<close> on an \<open>int\<close> (\<open>None\<close>: OverflowError, the integer
  is too large for a double), \<open>float\<close> on a \<open>str\<close> (\<open>None\<close>: ValueError, the string is
  no float literal) and \<open>str\<close> on a value that is not already a \<open>str\<close>. Every theorem
  below holds for all such functions.
\<close>

record builtins =
  float_of_int :: "int \<Rightarrow> pyfloat option"
  float_of_str :: "string \<Rightarrow> pyfloat option"
  str_of :: "pyval \<Rightarrow> string"

text \<open>
  A finite fragment of those conversions, for evaluating the model on examples. It
  agrees with CPython on the values the examples convert: integers of at most 53 bits
  (exact as doubles), the float literal \<open>1.5\<close>, strings that are no float literal such as
  \<open>abc\<close> (only \<open>1.5\<close> is recognised as one), and \<open>str\<close> of \<open>None\<close>, \<open>True\<close> and \<open>False\<close>.
\<close>

definition cpython_fragment :: builtins where
  "cpython_fragment =
     \<lparr>float_of_int = (\<lambda>i. if \<bar>i\<bar> < 2 ^ 53 then Some (Fin (of_int i)) else None),
      float_of_str = (\<lambda>s. if s = ''1.5'' then Some (Fin (3 / 2)) else None),
      str_of = (\<lambda>v. case v of PBool b \<Rightarrow> (if b then ''True'' else ''False'') | _ \<Rightarrow> ''None'')\<rparr>"

text \<open>\<open>float(v)\<close>: a bool is an int (1.0 or 0.0), a list, a dict and \<open>None\<close> raise TypeError.\<close>

fun py_float :: "builtins \<Rightarrow> pyval \<Rightarrow> pyexn + pyfloat" where
  "py_float B PNone = Inl TypeError"
| "py_float B (PBool b) = Inr (Fin (if b then 1 else 0))"
| "py_float B (PInt i) =
     (case float_of_int B i of None \<Rightarrow> Inl OverflowError | Some f \<Rightarrow> Inr f)"
| "py_float B (PFloat f) = Inr f"
| "py_float B (PStr s) =
     (case float_of_str B s of None \<Rightarrow> Inl ValueError | Some f \<Rightarrow> Inr f)"
| "py_float B (PList xs) = Inl TypeError"
| "py_float B (PDict kv) = Inl TypeError"

text \<open>\<open>str(v)\<close>: the identity on a \<open>str\<close>.\<close>

fun py_str :: "builtins \<Rightarrow> pyval \<Rightarrow> string" where
  "py_str B (PStr s) = s"
| "py_str B v = str_of B v"

text \<open>Truth value testing, \<open>bool(v)\<close>: zero, \<open>None\<close> and the empty containers are false.\<close>

fun float_truthy :: "pyfloat \<Rightarrow> bool" where
  "float_truthy (Fin r) = (r \<noteq> 0)"
| "float_truthy f = True"

fun truthy :: "pyval \<Rightarrow> bool" where
  "truthy PNone = False"
| "truthy (PBool b) = b"
| "truthy (PInt i) = (i \<noteq> 0)"
| "truthy (PFloat f) = float_truthy f"
| "truthy (PStr s) = (s \<noteq> [])"
| "truthy (PList xs) = (xs \<noteq> [])"
| "truthy (PDict kv) = (kv \<noteq> [])"

text \<open>\<open>data.get(k)\<close>: only a dict has the method; a missing key gives \<open>None\<close>.\<close>

definition dict_get :: "(string \<times> pyval) list \<Rightarrow> string \<Rightarrow> pyval" where
  "dict_get kv k = (case map_of kv k of None \<Rightarrow> PNone | Some v \<Rightarrow> v)"

fun py_get :: "pyval \<Rightarrow> string \<Rightarrow> pyexn + pyval" where
  "py_get (PDict kv) k = Inr (dict_get kv k)"
| "py_get v k = Inl AttributeError"

primrec is_substring :: "string \<Rightarrow> string \<Rightarrow> bool" where
  "is_substring p [] = (p = [])"
| "is_substring p (c # cs) = (prefix p (c # cs) \<or> is_substring p cs)"

text \<open>
  \<open>k in data\<close> for a string \<open>k\<close>: key membership in a dict, element membership in a
  list, substring test in a str, TypeError on a value that is not iterable.
\<close>

fun py_contains :: "string \<Rightarrow> pyval \<Rightarrow> pyexn + bool" where
  "py_contains k (PDict kv) = Inr (map_of kv k \<noteq> None)"
| "py_contains k (PList xs) = Inr (List.member xs (PStr k))"
| "py_contains k (PStr s) = Inr (is_substring k s)"
| "py_contains k v = Inl TypeError"

text \<open>\<open>data[k]\<close> for a string \<open>k\<close>: only a dict can be indexed by a string.\<close>

fun py_getitem :: "pyval \<Rightarrow> string \<Rightarrow> pyexn + pyval" where
  "py_getitem (PDict kv) k = (case map_of kv k of None \<Rightarrow> Inl KeyError | Some v \<Rightarrow> Inr v)"
| "py_getitem v k = Inl TypeError"

text \<open>\<open>request.get_json(force=True, silent=True) or {}\<close>: a falsy body becomes the empty dict.\<close>

definition or_empty :: "pyval \<Rightarrow> pyval" where
  "or_empty j = (if truthy j then j else PDict [])"

text \<open>\<open>except (ValueError, TypeError)\<close>.\<close>

definition caught :: "pyexn \<Rightarrow> bool" where
  "caught e = (e = ValueError \<or> e = TypeError)"

text \<open>\<open>if raw is not None: x = float(raw)\<close>, for a variable \<open>x\<close> that is \<open>None\<close> before.\<close>

definition float_if_present :: "builtins \<Rightarrow> pyval \<Rightarrow> pyexn + pyfloat option" where
  "float_if_present B raw =
     (if raw = PNone then Inr None
      else case py_float B raw of Inl e \<Rightarrow> Inl e | Inr f \<Rightarrow> Inr (Some f))"

section \<open>Responses, effects and outcomes\<close>

record response =
  status_code :: nat
  body :: pyval

text \<open>
  The sequencer of the first generation is a thread whose body is a list of
  instructions; \<open>time.sleep(n)\<close> is \<open>Sleep n\<close>. The second generation launches external
  scripts with \<open>subprocess.Popen\<close>. Printing to the console is left out of the model.
\<close>

datatype instr = Sleep nat | SetDroneActive bool | SetRecording bool | SetAiStatus string

datatype effect = Thread "instr list" | Popen "string list"

text \<open>
  A handler returns a response, or an exception it does not catch escapes it (Flask then
  answers 500, which is what \<open>http_status\<close> reports); the store is what the handler
  leaves behind in either case.
\<close>

record 's outcome =
  reply :: "pyexn + response"
  store :: 's
  effects :: "effect list"

definition http_status :: "'s outcome \<Rightarrow> nat" where
  "http_status out = (case reply out of Inl e \<Rightarrow> 500 | Inr r \<Rightarrow> status_code r)"

record gps =
  lat :: "pyfloat option"
  lon :: "pyfloat option"

definition float_json :: "pyfloat option \<Rightarrow> pyval" where
  "float_json x = (case x of None \<Rightarrow> PNone | Some f \<Rightarrow> PFloat f)"

definition gps_json :: "gps \<Rightarrow> pyval" where
  "gps_json g = PDict [(''lat'', float_json (lat g)), (''lon'', float_json (lon g))]"

text \<open>\<open>random.randint(a, b)\<close>: an integer between \<open>a\<close> and \<open>b\<close>, both included, chosen by the draw.\<close>

definition randint :: "int \<Rightarrow> int \<Rightarrow> nat \<Rightarrow> int" where
  "randint a b draw = a + int draw mod (b - a + 1)"

section \<open>First generation: backend/drone_state.py and backend/app.py\<close>

record backend_state =
  v1_drone_active :: bool
  v1_recording :: bool
  v1_ai_status :: string
  v1_gps_location :: gps
  v1_battery_level :: int

definition backend_state_init :: backend_state where
  "backend_state_init =
     \<lparr>v1_drone_active = False, v1_recording = False, v1_ai_status = ''Standby'',
      v1_gps_location = \<lparr>lat = None, lon = None\<rparr>, v1_battery_level = 100\<rparr>"

definition reset :: "nat \<Rightarrow> backend_state \<Rightarrow> backend_state" where
  "reset draw s =
     s\<lparr>v1_drone_active := False,
       v1_recording := False,
       v1_ai_status := ''Standby'',
       v1_gps_location := \<lparr>lat = None, lon = None\<rparr>,
       v1_battery_level := randint 85 100 draw\<rparr>"

definition get_state :: "backend_state \<Rightarrow> pyval" where
  "get_state s =
     PDict [(''drone_active'', PBool (v1_drone_active s)),
            (''recording'', PBool (v1_recording s)),
            (''ai_status'', PStr (v1_ai_status s)),
            (''gps'', gps_json (v1_gps_location s)),
            (''battery'', PInt (v1_battery_level s))]"

definition simulate_drone_sequence :: "instr list" where
  "simulate_drone_sequence =
     [Sleep 2, SetDroneActive True, SetAiStatus ''Drone Activated'',
      Sleep 3, SetRecording True, SetAiStatus ''Camera Recording'',
      Sleep 3, SetAiStatus ''Human Detected'']"

fun assign :: "instr \<Rightarrow> backend_state \<Rightarrow> backend_state" where
  "assign (SetDroneActive b) s = s\<lparr>v1_drone_active := b\<rparr>"
| "assign (SetRecording b) s = s\<lparr>v1_recording := b\<rparr>"
| "assign (SetAiStatus a) s = s\<lparr>v1_ai_status := a\<rparr>"
| "assign (Sleep n) s = s"

text \<open>
  \<open>run_for t is s\<close>: the store and the instructions still to run after the thread has run
  for \<open>t\<close> seconds from the store \<open>s\<close>, when a sleep of \<open>n\<close> seconds lasts \<open>n\<close> seconds, an
  assignment takes no time and nothing else writes to the store.
\<close>

fun run_for :: "nat \<Rightarrow> instr list \<Rightarrow> backend_state \<Rightarrow> backend_state \<times> instr list" where
  "run_for t [] s = (s, [])"
| "run_for t (Sleep n # is) s =
     (if n \<le> t then run_for (t - n) is s else (s, Sleep (n - t) # is))"
| "run_for t (i # is) s = run_for t is (assign i s)"

text \<open>The body of the \<open>try\<close> block of \<open>start_sos\<close>, up to the assignment of the GPS.\<close>

definition start_sos_try :: "builtins \<Rightarrow> pyval \<Rightarrow> backend_state \<Rightarrow> pyexn + backend_state" where
  "start_sos_try B data s =
     (case py_get data ''lat'' of Inl e \<Rightarrow> Inl e | Inr lat0 \<Rightarrow>
     (case py_get data ''lon'' of Inl e \<Rightarrow> Inl e | Inr lon0 \<Rightarrow>
     (case float_if_present B lat0 of Inl e \<Rightarrow> Inl e | Inr lat1 \<Rightarrow>
     (case float_if_present B lon0 of Inl e \<Rightarrow> Inl e | Inr lon1 \<Rightarrow>
        Inr (s\<lparr>v1_gps_location := \<lparr>lat = lat1, lon = lon1\<rparr>\<rparr>)))))"

text \<open>The \<open>try\<close> statement with its handler: a caught exception clears the GPS.\<close>

definition start_sos_gps :: "builtins \<Rightarrow> pyval \<Rightarrow> backend_state \<Rightarrow> pyexn + backend_state" where
  "start_sos_gps B j s =
     (case start_sos_try B (or_empty j) s of
        Inl e \<Rightarrow>
          if caught e then Inr (s\<lparr>v1_gps_location := \<lparr>lat = None, lon = None\<rparr>\<rparr>) else Inl e
      | Inr s' \<Rightarrow> Inr s')"

definition opt_truthy :: "pyfloat option \<Rightarrow> bool" where
  "opt_truthy x = (case x of None \<Rightarrow> False | Some f \<Rightarrow> float_truthy f)"

definition start_sos :: "builtins \<Rightarrow> pyval \<Rightarrow> backend_state \<Rightarrow> backend_state outcome" where
  "start_sos B j s =
     (case start_sos_gps B j s of
        Inl e \<Rightarrow> \<lparr>reply = Inl e, store = s, effects = []\<rparr>
      | Inr s1 \<Rightarrow>
          let s2 = s1\<lparr>v1_drone_active := False,
                     v1_recording := False,
                     v1_ai_status := ''Initializing...''\<rparr>;
              gps_note = (if opt_truthy (lat (v1_gps_location s2)) then ''with GPS''
                          else ''without GPS (unavailable)'')
          in \<lparr>reply = Inr \<lparr>status_code = 200,
                   body = PDict [(''message'', PStr (''SOS received. Drone activating '' @ gps_note @ ''.'')),
                                 (''gps'', gps_json (v1_gps_location s2))]\<rparr>,
              store = s2,
              effects = [Thread simulate_drone_sequence]\<rparr>)"

definition status :: "backend_state \<Rightarrow> backend_state outcome" where
  "status s = \<lparr>reply = Inr \<lparr>status_code = 200, body = get_state s\<rparr>, store = s, effects = []\<rparr>"

definition reset_drone :: "nat \<Rightarrow> backend_state \<Rightarrow> backend_state outcome" where
  "reset_drone draw s =
     \<lparr>reply = Inr \<lparr>status_code = 200,
                    body = PDict [(''message'', PStr ''Drone reset to standby.'')]\<rparr>,
      store = reset draw s, effects = []\<rparr>"

section \<open>Second generation: shieldher/config.py, core/ and server/app.py\<close>

record config =
  HOST :: string
  PORT :: nat
  MISSION_MODE :: string
  ENABLE_MANUAL_TRIGGER :: bool

definition config_py :: config where
  "config_py = \<lparr>HOST = ''0.0.0.0'', PORT = 5000, MISSION_MODE = ''LOCAL'',
                ENABLE_MANUAL_TRIGGER = True\<rparr>"

text \<open>
  \<open>ai_status\<close> is kept as a Python value: that it always holds a \<open>str\<close> is a property of
  the operations, proved below, and not of the type.
\<close>

record drone_state =
  drone_active :: bool
  recording_active :: bool
  ai_status :: pyval
  gps_location :: gps
  battery_level :: int

definition drone_state_init :: drone_state where
  "drone_state_init =
     \<lparr>drone_active = False, recording_active = False, ai_status = PStr ''Standby'',
      gps_location = \<lparr>lat = None, lon = None\<rparr>, battery_level = 95\<rparr>"

definition is_jetson_mode :: "config \<Rightarrow> bool" where
  "is_jetson_mode cfg = (MISSION_MODE cfg = ''JETSON'')"

definition launch_drone_script :: "effect list" where
  "launch_drone_script = [Popen [''python3'', ''drone_demo.py'']]"

definition launch_ai_script :: "effect list" where
  "launch_ai_script = [Popen [''python3'', ''ai_detect.py'']]"

definition start_mission ::
  "config \<Rightarrow> pyfloat option \<Rightarrow> pyfloat option \<Rightarrow> drone_state \<Rightarrow> drone_state \<times> effect list" where
  "start_mission cfg lat0 lon0 s =
     (s\<lparr>gps_location := \<lparr>lat = lat0, lon = lon0\<rparr>,
        drone_active := True,
        recording_active := True,
        ai_status := PStr ''Initializing''\<rparr>,
      if is_jetson_mode cfg then launch_drone_script @ launch_ai_script else [])"

definition reset_mission :: "drone_state \<Rightarrow> drone_state" where
  "reset_mission s =
     s\<lparr>drone_active := False,
       recording_active := False,
       ai_status := PStr ''Standby'',
       gps_location := \<lparr>lat = None, lon = None\<rparr>\<rparr>"

definition update_ai_status :: "string \<Rightarrow> drone_state \<Rightarrow> drone_state" where
  "update_ai_status st s = s\<lparr>ai_status := PStr st\<rparr>"

text \<open>
  The \<open>try\<close> statement of \<open>mission_start\<close>: \<open>lat\<close> and \<open>lon\<close> are \<open>None\<close> before it, each is
  assigned when its conversion returns, and a caught exception leaves both as they are
  at that point.
\<close>

definition mission_start_gps ::
  "builtins \<Rightarrow> pyval \<Rightarrow> pyexn + (pyfloat option \<times> pyfloat option)" where
  "mission_start_gps B data =
     (case py_get data ''lat'' of Inl e \<Rightarrow> Inl e | Inr raw_lat \<Rightarrow>
     (case py_get data ''lon'' of Inl e \<Rightarrow> Inl e | Inr raw_lon \<Rightarrow>
     (case float_if_present B raw_lat of
        Inl e \<Rightarrow> if caught e then Inr (None, None) else Inl e
      | Inr lat1 \<Rightarrow>
          (case float_if_present B raw_lon of
             Inl e \<Rightarrow> if caught e then Inr (lat1, None) else Inl e
           | Inr lon1 \<Rightarrow> Inr (lat1, lon1)))))"

definition mission_start ::
  "builtins \<Rightarrow> config \<Rightarrow> pyval \<Rightarrow> drone_state \<Rightarrow> drone_state outcome" where
  "mission_start B cfg j s =
     (case mission_start_gps B (or_empty j) of
        Inl e \<Rightarrow> \<lparr>reply = Inl e, store = s, effects = []\<rparr>
      | Inr (lat1, lon1) \<Rightarrow>
          let (s', fx) = start_mission cfg lat1 lon1 s;
              gps_note = (if lat1 \<noteq> None then ''with GPS'' else ''without GPS (unavailable)'')
          in \<lparr>reply = Inr \<lparr>status_code = 200,
                   body = PDict [(''status'', PStr ''mission_active''),
                                 (''message'', PStr (''Mission started '' @ gps_note @ ''.'')),
                                 (''gps'', gps_json (gps_location s'))]\<rparr>,
              store = s',
              effects = fx\<rparr>)"

definition mission_state :: "drone_state \<Rightarrow> drone_state outcome" where
  "mission_state s =
     \<lparr>reply = Inr \<lparr>status_code = 200,
                    body = PDict [(''drone_active'', PBool (drone_active s)),
                                  (''recording_active'', PBool (recording_active s)),
                                  (''ai_status'', ai_status s),
                                  (''gps'', gps_json (gps_location s)),
                                  (''battery'', PInt (battery_level s))]\<rparr>,
      store = s, effects = []\<rparr>"

text \<open>\<open>if k in data: ... data[k] ...\<close>: the value to coerce, when the key is there.\<close>

definition patch_key :: "pyval \<Rightarrow> string \<Rightarrow> pyexn + pyval option" where
  "patch_key data k =
     (case py_contains k data of
        Inl e \<Rightarrow> Inl e
      | Inr present \<Rightarrow>
          if present then (case py_getitem data k of Inl e \<Rightarrow> Inl e | Inr v \<Rightarrow> Inr (Some v))
          else Inr None)"

definition mission_patch ::
  "builtins \<Rightarrow> config \<Rightarrow> pyval \<Rightarrow> drone_state \<Rightarrow> drone_state outcome" where
  "mission_patch B cfg j s =
     (if \<not> ENABLE_MANUAL_TRIGGER cfg then
        \<lparr>reply = Inr \<lparr>status_code = 403,
                       body = PDict [(''error'', PStr ''Manual trigger is disabled in config.py.'')]\<rparr>,
         store = s, effects = []\<rparr>
      else
        (let data = or_empty j in
        (case patch_key data ''ai_status'' of
          Inl e \<Rightarrow> \<lparr>reply = Inl e, store = s, effects = []\<rparr>
        | Inr a \<Rightarrow>
        (let s1 = (case a of None \<Rightarrow> s | Some v \<Rightarrow> s\<lparr>ai_status := PStr (py_str B v)\<rparr>) in
        (case patch_key data ''drone_active'' of
          Inl e \<Rightarrow> \<lparr>reply = Inl e, store = s1, effects = []\<rparr>
        | Inr d \<Rightarrow>
        (let s2 = (case d of None \<Rightarrow> s1 | Some v \<Rightarrow> s1\<lparr>drone_active := truthy v\<rparr>) in
        (case patch_key data ''recording_active'' of
          Inl e \<Rightarrow> \<lparr>reply = Inl e, store = s2, effects = []\<rparr>
        | Inr r \<Rightarrow>
        (let s3 = (case r of None \<Rightarrow> s2 | Some v \<Rightarrow> s2\<lparr>recording_active := truthy v\<rparr>) in
         \<lparr>reply = Inr \<lparr>status_code = 200,
                        body = PDict [(''status'', PStr ''patched''), (''applied'', data)]\<rparr>,
          store = s3, effects = []\<rparr>))))))))"

definition mission_reset :: "drone_state \<Rightarrow> drone_state outcome" where
  "mission_reset s =
     \<lparr>reply = Inr \<lparr>status_code = 200,
                    body = PDict [(''status'', PStr ''standby''),
                                  (''message'', PStr ''Mission reset. System at standby.'')]\<rparr>,
      store = reset_mission s, effects = []\<rparr>"

section \<open>Sequences of operations on the store of the second generation\<close>

text \<open>
  Everything that writes to \<open>shieldher.core.drone_state\<close>: the three functions of the
  mission controller and the four handlers of the server. \<open>update_ai_status\<close> is
  called with a \<open>str\<close>, as its signature says.
\<close>

datatype operation =
    StartMission "pyfloat option" "pyfloat option"
  | ResetMission
  | UpdateAiStatus string
  | ApiStart pyval
  | ApiState
  | ApiPatch pyval
  | ApiReset

fun perform :: "builtins \<Rightarrow> config \<Rightarrow> drone_state \<Rightarrow> operation \<Rightarrow> drone_state" where
  "perform B cfg s (StartMission la lo) = fst (start_mission cfg la lo s)"
| "perform B cfg s ResetMission = reset_mission s"
| "perform B cfg s (UpdateAiStatus st) = update_ai_status st s"
| "perform B cfg s (ApiStart j) = store (mission_start B cfg j s)"
| "perform B cfg s ApiState = store (mission_state s)"
| "perform B cfg s (ApiPatch j) = store (mission_patch B cfg j s)"
| "perform B cfg s ApiReset = store (mission_reset s)"

definition after_operations :: "builtins \<Rightarrow> config \<Rightarrow> operation list \<Rightarrow> drone_state" where
  "after_operations B cfg ops = foldl (perform B cfg) drone_state_init ops"

fun is_str :: "pyval \<Rightarrow> bool" where
  "is_str (PStr s) = True"
| "is_str v = False"

section \<open>Properties of the two generations\<close>

lemmas handler_defs = or_empty_def float_if_present_def dict_get_def caught_def
  float_json_def gps_json_def opt_truthy_def

lemma randint_range: "a \<le> b \<Longrightarrow> a \<le> randint a b draw \<and> randint a b draw \<le> b"
proof -
  assume "a \<le> b"
  then have pos: "0 < b - a + 1" by simp
  have "0 \<le> int draw mod (b - a + 1)" using pos by (rule pos_mod_sign)
  moreover have "int draw mod (b - a + 1) < b - a + 1" using pos by (rule pos_mod_bound)
  ultimately show ?thesis unfolding randint_def by arith
qed

subsection \<open>What a start leaves in the store\<close>

text \<open>
  C1, where it fails: the \<open>/start_sos\<close> handler of the first generation, called with
  the numeric pair (1.5, 2.5), leaves both flags false and the status
  \<open>Initializing...\<close>: it resets the flags and lets the sequencer raise them later.
\<close>

theorem start_sos_flags_counterexample:
  "\<not> v1_drone_active (store (start_sos cpython_fragment
        (PDict [(''lat'', PFloat (Fin (3 / 2))), (''lon'', PFloat (Fin (5 / 2)))]) backend_state_init))
   \<and> \<not> v1_recording (store (start_sos cpython_fragment
        (PDict [(''lat'', PFloat (Fin (3 / 2))), (''lon'', PFloat (Fin (5 / 2)))]) backend_state_init))
   \<and> v1_ai_status (store (start_sos cpython_fragment
        (PDict [(''lat'', PFloat (Fin (3 / 2))), (''lon'', PFloat (Fin (5 / 2)))]) backend_state_init))
      = ''Initializing...''"
  by (simp add: start_sos_def start_sos_gps_def start_sos_try_def handler_defs backend_state_init_def)

text \<open>
  C1, amended: for every pair of floats \<open>(a, b)\<close>, \<open>start_mission\<close> of the second
  generation followed by a read of the state returns gps \<open>(a, b)\<close>, both flags true and
  the status \<open>Initializing\<close> (the battery is untouched), and the store that
  \<open>/api/mission/start\<close> leaves for the payload \<open>{lat: a, lon: b}\<close> is that same store. The
  \<open>/start_sos\<close> handler of the first generation, for the same payload, stores gps
  \<open>(a, b)\<close> with both flags false and the status \<open>Initializing...\<close>.
\<close>

theorem start_configuration:
  "reply (mission_state (fst (start_mission cfg (Some a) (Some b) s))) =
     Inr \<lparr>status_code = 200,
          body = PDict [(''drone_active'', PBool True),
                        (''recording_active'', PBool True),
                        (''ai_status'', PStr ''Initializing''),
                        (''gps'', PDict [(''lat'', PFloat a), (''lon'', PFloat b)]),
                        (''battery'', PInt (battery_level s))]\<rparr>
   \<and> store (mission_start B cfg (PDict [(''lat'', PFloat a), (''lon'', PFloat b)]) s) =
       fst (start_mission cfg (Some a) (Some b) s)
   \<and> reply (status (store (start_sos B (PDict [(''lat'', PFloat a), (''lon'', PFloat b)]) s'))) =
     Inr \<lparr>status_code = 200,
          body = PDict [(''drone_active'', PBool False),
                        (''recording'', PBool False),
                        (''ai_status'', PStr ''Initializing...''),
                        (''gps'', PDict [(''lat'', PFloat a), (''lon'', PFloat b)]),
                        (''battery'', PInt (v1_battery_level s'))]\<rparr>"
proof (intro conjI)
  show "reply (mission_state (fst (start_mission cfg (Some a) (Some b) s))) =
     Inr \<lparr>status_code = 200,
          body = PDict [(''drone_active'', PBool True),
                        (''recording_active'', PBool True),
                        (''ai_status'', PStr ''Initializing''),
                        (''gps'', PDict [(''lat'', PFloat a), (''lon'', PFloat b)]),
                        (''battery'', PInt (battery_level s))]\<rparr>"
    by (simp add: mission_state_def start_mission_def gps_json_def float_json_def)
  show "store (mission_start B cfg (PDict [(''lat'', PFloat a), (''lon'', PFloat b)]) s) =
       fst (start_mission cfg (Some a) (Some b) s)"
    by (simp add: mission_start_def mission_start_gps_def handler_defs split: prod.splits)
  show "reply (status (store (start_sos B (PDict [(''lat'', PFloat a), (''lon'', PFloat b)]) s'))) =
     Inr \<lparr>status_code = 200,
          body = PDict [(''drone_active'', PBool False),
                        (''recording'', PBool False),
                        (''ai_status'', PStr ''Initializing...''),
                        (''gps'', PDict [(''lat'', PFloat a), (''lon'', PFloat b)]),
                        (''battery'', PInt (v1_battery_level s'))]\<rparr>"
    by (simp add: status_def get_state_def start_sos_def start_sos_gps_def start_sos_try_def
        handler_defs)
qed

theorem start_configuration_witness:
  "reply (mission_state (fst (start_mission config_py (Some (Fin (3 / 2))) (Some (Fin (5 / 2)))
       drone_state_init))) =
     Inr \<lparr>status_code = 200,
          body = PDict [(''drone_active'', PBool True),
                        (''recording_active'', PBool True),
                        (''ai_status'', PStr ''Initializing''),
                        (''gps'', PDict [(''lat'', PFloat (Fin (3 / 2))), (''lon'', PFloat (Fin (5 / 2)))]),
                        (''battery'', PInt 95)]\<rparr>"
  using start_configuration [of config_py "Fin (3 / 2)" "Fin (5 / 2)" drone_state_init]
  by (simp add: drone_state_init_def)

subsection \<open>Reset\<close>

text \<open>
  C2, where it fails: \<open>reset_mission\<close> of the second generation never assigns the
  battery level. From a store whose battery level is 20 the level after the reset is
  still 20, which is not in [85, 100].
\<close>

theorem reset_mission_battery_counterexample:
  "\<not> (85 \<le> battery_level (reset_mission (drone_state_init\<lparr>battery_level := 20\<rparr>))
      \<and> battery_level (reset_mission (drone_state_init\<lparr>battery_level := 20\<rparr>)) \<le> 100)"
  by (simp add: reset_mission_def)

text \<open>
  C2, amended: \<open>reset\<close> of the first generation sets, whatever the store was, both
  flags false, the status \<open>Standby\<close>, both coordinates absent and the battery level to
  the drawn integer, which lies in [85, 100]; a second reset changes at most the battery
  level. \<open>reset_mission\<close> of the second generation sets the flags, the status and the
  coordinates in the same way, leaves the battery level as it was, and is idempotent.
  Both are total: neither has an error case.
\<close>

theorem reset_effect:
  "reset draw s = \<lparr>v1_drone_active = False, v1_recording = False, v1_ai_status = ''Standby'',
                    v1_gps_location = \<lparr>lat = None, lon = None\<rparr>,
                    v1_battery_level = randint 85 100 draw\<rparr>
   \<and> 85 \<le> v1_battery_level (reset draw s) \<and> v1_battery_level (reset draw s) \<le> 100
   \<and> reset draw' (reset draw s) = (reset draw s)\<lparr>v1_battery_level := randint 85 100 draw'\<rparr>
   \<and> reset_mission d = \<lparr>drone_active = False, recording_active = False,
                         ai_status = PStr ''Standby'',
                         gps_location = \<lparr>lat = None, lon = None\<rparr>,
                         battery_level = battery_level d\<rparr>
   \<and> reset_mission (reset_mission d) = reset_mission d"
proof -
  have range: "85 \<le> randint 85 100 draw \<and> randint 85 100 draw \<le> 100"
    by (rule randint_range) simp
  show ?thesis
    using range by (simp add: reset_def reset_mission_def)
qed

theorem reset_effect_witness:
  "reset 17 backend_state_init =
     \<lparr>v1_drone_active = False, v1_recording = False, v1_ai_status = ''Standby'',
      v1_gps_location = \<lparr>lat = None, lon = None\<rparr>, v1_battery_level = 86\<rparr>
   \<and> battery_level (reset_mission drone_state_init) = 95"
  using reset_effect [of 17 backend_state_init 3 drone_state_init]
  by (simp add: randint_def drone_state_init_def)

subsection \<open>The sequencer\<close>

text \<open>The store while the thread of \<open>simulate_drone_sequence\<close> runs, by elapsed seconds.\<close>

lemma run_for_before:
  "t < 2 \<Longrightarrow> fst (run_for t simulate_drone_sequence s) = s"
  by (simp add: simulate_drone_sequence_def)

lemma run_for_activated:
  "2 \<le> t \<Longrightarrow> t < 5 \<Longrightarrow> fst (run_for t simulate_drone_sequence s) =
     s\<lparr>v1_drone_active := True, v1_ai_status := ''Drone Activated''\<rparr>"
  by (simp add: simulate_drone_sequence_def)

lemma run_for_recording:
  "5 \<le> t \<Longrightarrow> t < 8 \<Longrightarrow> fst (run_for t simulate_drone_sequence s) =
     s\<lparr>v1_drone_active := True, v1_recording := True, v1_ai_status := ''Camera Recording''\<rparr>"
  by (simp add: simulate_drone_sequence_def)

lemma run_for_detected:
  "8 \<le> t \<Longrightarrow> run_for t simulate_drone_sequence s =
     (s\<lparr>v1_drone_active := True, v1_recording := True, v1_ai_status := ''Human Detected''\<rparr>, [])"
  by (simp add: simulate_drone_sequence_def) arith

lemma start_sos_success:
  "reply (start_sos B j s) = Inr r \<Longrightarrow>
     effects (start_sos B j s) = [Thread simulate_drone_sequence]
     \<and> v1_ai_status (store (start_sos B j s)) = ''Initializing...''
     \<and> \<not> v1_drone_active (store (start_sos B j s))
     \<and> \<not> v1_recording (store (start_sos B j s))"
  by (auto simp add: start_sos_def Let_def split: sum.splits)

lemma mission_start_local_effects:
  "MISSION_MODE cfg \<noteq> ''JETSON'' \<Longrightarrow> effects (mission_start B cfg j d) = []"
  by (auto simp add: mission_start_def start_mission_def is_jetson_mode_def
      split: sum.splits prod.splits)

text \<open>
  C3, where it fails: in the mode of \<open>config.py\<close> (\<open>LOCAL\<close>), \<open>start_mission\<close> of the
  second generation starts no thread and launches nothing, and neither does
  \<open>/api/mission/start\<close>: no sequencer is armed, so nothing changes the store afterwards.
\<close>

theorem start_mission_local_counterexample:
  "snd (start_mission config_py (Some (Fin 1)) (Some (Fin 2)) drone_state_init) = []
   \<and> effects (mission_start cpython_fragment config_py
        (PDict [(''lat'', PFloat (Fin 1)), (''lon'', PFloat (Fin 2))]) drone_state_init) = []"
  by (simp add: mission_start_def mission_start_gps_def start_mission_def is_jetson_mode_def
      config_py_def or_empty_def float_if_present_def dict_get_def)

text \<open>
  C3, amended: every \<open>/start_sos\<close> request of the first generation that is answered
  starts one fresh thread running \<open>simulate_drone_sequence\<close>, with both flags false and
  the status \<open>Initializing...\<close> in the store. While that thread is the only writer, with
  sleeps of their nominal length, the store is unchanged before T+2s; from T+2s the
  drone is active with status \<open>Drone Activated\<close>; from T+5s the recording is active too
  with status \<open>Camera Recording\<close>; from T+8s on the status is \<open>Human Detected\<close>, the
  thread has no instruction left and the store no longer changes. In the second
  generation, outside \<open>JETSON\<close> mode, a start arms no sequencer and launches nothing.
\<close>

theorem sequencer_timeline:
  assumes "reply (start_sos B j s) = Inr r"
    and "t1 < 2" and "2 \<le> t2" and "t2 < 5" and "5 \<le> t3" and "t3 < 8" and "8 \<le> t4"
    and "MISSION_MODE cfg \<noteq> ''JETSON''"
  shows "effects (start_sos B j s) = [Thread simulate_drone_sequence]
       \<and> v1_ai_status (store (start_sos B j s)) = ''Initializing...''
       \<and> \<not> v1_drone_active (store (start_sos B j s))
       \<and> \<not> v1_recording (store (start_sos B j s))
       \<and> fst (run_for t1 simulate_drone_sequence (store (start_sos B j s))) = store (start_sos B j s)
       \<and> fst (run_for t2 simulate_drone_sequence (store (start_sos B j s))) =
           (store (start_sos B j s))\<lparr>v1_drone_active := True, v1_ai_status := ''Drone Activated''\<rparr>
       \<and> fst (run_for t3 simulate_drone_sequence (store (start_sos B j s))) =
           (store (start_sos B j s))\<lparr>v1_drone_active := True, v1_recording := True,
              v1_ai_status := ''Camera Recording''\<rparr>
       \<and> run_for t4 simulate_drone_sequence (store (start_sos B j s)) =
           ((store (start_sos B j s))\<lparr>v1_drone_active := True, v1_recording := True,
              v1_ai_status := ''Human Detected''\<rparr>, [])
       \<and> snd (start_mission cfg la lo d) = []
       \<and> effects (mission_start B cfg j' d) = []"
proof -
  note armed = start_sos_success [OF assms(1)]
  have local: "snd (start_mission cfg la lo d) = []"
    using assms(8) by (simp add: start_mission_def is_jetson_mode_def)
  show ?thesis
    using armed local run_for_before [OF assms(2)] run_for_activated [OF assms(3,4)]
      run_for_recording [OF assms(5,6)] run_for_detected [OF assms(7)]
      mission_start_local_effects [OF assms(8)]
    by simp
qed

theorem sequencer_timeline_witness:
  "effects (start_sos cpython_fragment (PDict [(''lat'', PNone), (''lon'', PNone)]) backend_state_init) =
     [Thread simulate_drone_sequence]
   \<and> v1_ai_status (fst (run_for 1 simulate_drone_sequence
        (store (start_sos cpython_fragment (PDict [(''lat'', PNone), (''lon'', PNone)]) backend_state_init))))
     = ''Initializing...''
   \<and> v1_ai_status (fst (run_for 3 simulate_drone_sequence
        (store (start_sos cpython_fragment (PDict [(''lat'', PNone), (''lon'', PNone)]) backend_state_init))))
     = ''Drone Activated''
   \<and> v1_ai_status (fst (run_for 6 simulate_drone_sequence
        (store (start_sos cpython_fragment (PDict [(''lat'', PNone), (''lon'', PNone)]) backend_state_init))))
     = ''Camera Recording''
   \<and> v1_ai_status (fst (run_for 9 simulate_drone_sequence
        (store (start_sos cpython_fragment (PDict [(''lat'', PNone), (''lon'', PNone)]) backend_state_init))))
     = ''Human Detected''"
proof -
  have ok: "reply (start_sos cpython_fragment (PDict [(''lat'', PNone), (''lon'', PNone)]) backend_state_init) =
      Inr \<lparr>status_code = 200,
           body = PDict [(''message'', PStr ''SOS received. Drone activating without GPS (unavailable).''),
                         (''gps'', PDict [(''lat'', PNone), (''lon'', PNone)])]\<rparr>"
    by (simp add: start_sos_def start_sos_gps_def start_sos_try_def handler_defs)
  have mode: "MISSION_MODE config_py \<noteq> ''JETSON''"
    by (simp add: config_py_def)
  show ?thesis
    using sequencer_timeline [OF ok, of 1 3 6 9, OF _ _ _ _ _ _ mode]
    by simp
qed

subsection \<open>Validation of the GPS payload\<close>

lemma or_empty_dict: "or_empty (PDict kv) = PDict kv"
  by (cases kv) (simp_all add: or_empty_def)

lemma float_present_iff:
  "float_if_present B raw = Inr x \<Longrightarrow> (x = None) = (raw = PNone)"
  by (auto simp add: float_if_present_def split: if_splits sum.splits)

lemma start_sos_lat_malformed:
  assumes "float_if_present B (dict_get kv ''lat'') = Inl e" and "caught e"
  shows "http_status (start_sos B (PDict kv) s) = 200
       \<and> v1_gps_location (store (start_sos B (PDict kv) s)) = \<lparr>lat = None, lon = None\<rparr>"
  using assms
  by (simp add: http_status_def start_sos_def start_sos_gps_def start_sos_try_def or_empty_dict)

lemma start_sos_lon_malformed:
  assumes "float_if_present B (dict_get kv ''lat'') = Inr x"
    and "float_if_present B (dict_get kv ''lon'') = Inl e" and "caught e"
  shows "http_status (start_sos B (PDict kv) s) = 200
       \<and> v1_gps_location (store (start_sos B (PDict kv) s)) = \<lparr>lat = None, lon = None\<rparr>"
  using assms
  by (simp add: http_status_def start_sos_def start_sos_gps_def start_sos_try_def or_empty_dict)

lemma start_sos_well_formed:
  assumes "float_if_present B (dict_get kv ''lat'') = Inr x"
    and "float_if_present B (dict_get kv ''lon'') = Inr y"
  shows "http_status (start_sos B (PDict kv) s) = 200
       \<and> v1_gps_location (store (start_sos B (PDict kv) s)) = \<lparr>lat = x, lon = y\<rparr>"
  using assms
  by (simp add: http_status_def start_sos_def start_sos_gps_def start_sos_try_def or_empty_dict)

lemma mission_start_lat_malformed:
  assumes "float_if_present B (dict_get kv ''lat'') = Inl e" and "caught e"
  shows "http_status (mission_start B cfg (PDict kv) d) = 200
       \<and> gps_location (store (mission_start B cfg (PDict kv) d)) = \<lparr>lat = None, lon = None\<rparr>"
  using assms
  by (simp add: http_status_def mission_start_def mission_start_gps_def start_mission_def
      or_empty_dict)

lemma mission_start_well_formed:
  assumes "float_if_present B (dict_get kv ''lat'') = Inr x"
    and "float_if_present B (dict_get kv ''lon'') = Inr y"
  shows "http_status (mission_start B cfg (PDict kv) d) = 200
       \<and> gps_location (store (mission_start B cfg (PDict kv) d)) = \<lparr>lat = x, lon = y\<rparr>"
  using assms
  by (simp add: http_status_def mission_start_def mission_start_gps_def start_mission_def
      or_empty_dict)

text \<open>
  C4, where it fails: the payload \<open>{"lat": 1.5}\<close>, with no longitude, has no malformed
  field. \<open>/start_sos\<close> answers 200 and stores the latitude 1.5 with an absent longitude:
  one coordinate present, the other absent.
\<close>

theorem one_sided_gps_counterexample:
  "http_status (start_sos cpython_fragment (PDict [(''lat'', PFloat (Fin (3 / 2)))]) backend_state_init) = 200
   \<and> v1_gps_location (store (start_sos cpython_fragment (PDict [(''lat'', PFloat (Fin (3 / 2)))])
        backend_state_init)) = \<lparr>lat = Some (Fin (3 / 2)), lon = None\<rparr>"
  by (simp add: http_status_def start_sos_def start_sos_gps_def start_sos_try_def handler_defs)

text \<open>
  C4, amended: for a start request whose payload is a JSON object, call a coordinate
  malformed when it is not null and \<open>float\<close> raises ValueError or TypeError on it.
  If the latitude is malformed, both generations store \<open>{lat: absent, lon: absent}\<close> and
  answer 200. If the latitude converts (or is null or missing) and the longitude is
  malformed, the first generation stores \<open>{lat: absent, lon: absent}\<close> and answers 200.
  If both convert (or are null or missing), both generations answer 200 and store each
  coordinate on its own: a coordinate is absent exactly when the payload has no
  value or null for it, so the stored pair has one coordinate present and one absent
  when the payload supplies only one.
\<close>

theorem gps_validation:
  "(float_if_present B (dict_get kv ''lat'') = Inl e \<and> caught e \<longrightarrow>
      http_status (start_sos B (PDict kv) s) = 200
      \<and> v1_gps_location (store (start_sos B (PDict kv) s)) = \<lparr>lat = None, lon = None\<rparr>
      \<and> http_status (mission_start B cfg (PDict kv) d) = 200
      \<and> gps_location (store (mission_start B cfg (PDict kv) d)) = \<lparr>lat = None, lon = None\<rparr>)
   \<and> (float_if_present B (dict_get kv ''lat'') = Inr x
        \<and> float_if_present B (dict_get kv ''lon'') = Inl e \<and> caught e \<longrightarrow>
      http_status (start_sos B (PDict kv) s) = 200
      \<and> v1_gps_location (store (start_sos B (PDict kv) s)) = \<lparr>lat = None, lon = None\<rparr>)
   \<and> (float_if_present B (dict_get kv ''lat'') = Inr x
        \<and> float_if_present B (dict_get kv ''lon'') = Inr y \<longrightarrow>
      http_status (start_sos B (PDict kv) s) = 200
      \<and> v1_gps_location (store (start_sos B (PDict kv) s)) = \<lparr>lat = x, lon = y\<rparr>
      \<and> http_status (mission_start B cfg (PDict kv) d) = 200
      \<and> gps_location (store (mission_start B cfg (PDict kv) d)) = \<lparr>lat = x, lon = y\<rparr>
      \<and> (x = None) = (dict_get kv ''lat'' = PNone)
      \<and> (y = None) = (dict_get kv ''lon'' = PNone))"
  using start_sos_lat_malformed [of B kv e s] mission_start_lat_malformed [of B kv e cfg d]
    start_sos_lon_malformed [of B kv x e s]
    start_sos_well_formed [of B kv x y s] mission_start_well_formed [of B kv x y cfg d]
    float_present_iff [of B "dict_get kv ''lat''" x] float_present_iff [of B "dict_get kv ''lon''" y]
  by blast

theorem gps_validation_witness:
  "v1_gps_location (store (start_sos cpython_fragment
       (PDict [(''lat'', PStr ''abc''), (''lon'', PFloat (Fin 2))])
       (backend_state_init\<lparr>v1_gps_location := \<lparr>lat = Some (Fin 7), lon = Some (Fin 8)\<rparr>\<rparr>))) =
     \<lparr>lat = None, lon = None\<rparr>
   \<and> v1_gps_location (store (start_sos cpython_fragment
       (PDict [(''lat'', PFloat (Fin 2)), (''lon'', PList [])])
       (backend_state_init\<lparr>v1_gps_location := \<lparr>lat = Some (Fin 7), lon = Some (Fin 8)\<rparr>\<rparr>))) =
     \<lparr>lat = None, lon = None\<rparr>
   \<and> gps_location (store (mission_start cpython_fragment config_py
       (PDict [(''lat'', PInt 3), (''lon'', PStr ''1.5'')]) drone_state_init)) =
     \<lparr>lat = Some (Fin 3), lon = Some (Fin (3 / 2))\<rparr>"
  using gps_validation [of cpython_fragment "[(''lat'', PStr ''abc''), (''lon'', PFloat (Fin 2))]"
      ValueError "backend_state_init\<lparr>v1_gps_location := \<lparr>lat = Some (Fin 7), lon = Some (Fin 8)\<rparr>\<rparr>"]
    gps_validation [of cpython_fragment "[(''lat'', PFloat (Fin 2)), (''lon'', PList [])]"
      TypeError "backend_state_init\<lparr>v1_gps_location := \<lparr>lat = Some (Fin 7), lon = Some (Fin 8)\<rparr>\<rparr>"
      _ _ "Some (Fin 2)"]
    gps_validation [of cpython_fragment "[(''lat'', PInt 3), (''lon'', PStr ''1.5'')]"
      _ _ config_py drone_state_init "Some (Fin 3)" "Some (Fin (3 / 2))"]
  by (simp add: float_if_present_def dict_get_def caught_def cpython_fragment_def)

text \<open>
  Three cases the amended statement leaves open. In the second generation a latitude
  that converts is kept when the longitude after it is malformed; in both generations
  an integer too large for a double, and a body that is a JSON value other than an
  object (and not falsy), raise an exception that no handler catches.
\<close>

lemma mission_start_keeps_latitude:
  "gps_location (store (mission_start cpython_fragment config_py
       (PDict [(''lat'', PFloat (Fin (3 / 2))), (''lon'', PStr ''abc'')]) drone_state_init)) =
     \<lparr>lat = Some (Fin (3 / 2)), lon = None\<rparr>"
  by (simp add: mission_start_def mission_start_gps_def start_mission_def handler_defs
      cpython_fragment_def)

lemma start_overflow_escapes:
  "float_of_int B i = None \<Longrightarrow>
     http_status (start_sos B (PDict [(''lat'', PInt i)]) s) = 500
     \<and> http_status (mission_start B cfg (PDict [(''lat'', PInt i)]) d) = 500"
  by (simp add: http_status_def start_sos_def start_sos_gps_def start_sos_try_def
      mission_start_def mission_start_gps_def handler_defs)

lemma start_non_object_escapes:
  "http_status (start_sos B (PList [PInt 1]) s) = 500
   \<and> http_status (mission_start B cfg (PList [PInt 1]) d) = 500"
  by (simp add: http_status_def start_sos_def start_sos_gps_def start_sos_try_def
      mission_start_def mission_start_gps_def handler_defs)

subsection \<open>The patch endpoint\<close>

lemma patch_key_dict: "patch_key (PDict kv) k = Inr (map_of kv k)"
  by (simp add: patch_key_def split: option.splits)

text \<open>
  C5: when \<open>ENABLE_MANUAL_TRIGGER\<close> is false, \<open>/api/mission/patch\<close> answers every
  request, whatever its body, with status 403 and the error body, and leaves the whole
  store as it was.
\<close>

theorem patch_disabled:
  "\<not> ENABLE_MANUAL_TRIGGER cfg \<Longrightarrow>
     reply (mission_patch B cfg j s) =
       Inr \<lparr>status_code = 403,
            body = PDict [(''error'', PStr ''Manual trigger is disabled in config.py.'')]\<rparr>
     \<and> store (mission_patch B cfg j s) = s"
  by (simp add: mission_patch_def)

theorem patch_disabled_witness:
  "reply (mission_patch cpython_fragment (config_py\<lparr>ENABLE_MANUAL_TRIGGER := False\<rparr>)
       (PDict [(''ai_status'', PStr ''Human Detected''), (''drone_active'', PBool True)])
       drone_state_init) =
     Inr \<lparr>status_code = 403,
          body = PDict [(''error'', PStr ''Manual trigger is disabled in config.py.'')]\<rparr>
   \<and> store (mission_patch cpython_fragment (config_py\<lparr>ENABLE_MANUAL_TRIGGER := False\<rparr>)
       (PDict [(''ai_status'', PStr ''Human Detected''), (''drone_active'', PBool True)])
       drone_state_init) = drone_state_init"
  using patch_disabled [of "config_py\<lparr>ENABLE_MANUAL_TRIGGER := False\<rparr>" cpython_fragment
      "PDict [(''ai_status'', PStr ''Human Detected''), (''drone_active'', PBool True)]"
      drone_state_init]
  by (simp add: config_py_def)

text \<open>
  C6: with the endpoint enabled, a patch object overwrites exactly the fields it holds:
  \<open>ai_status\<close> with \<open>str\<close> of the given value, \<open>drone_active\<close> and \<open>recording_active\<close> with
  \<open>bool\<close> of the given value; a field the object does not hold keeps its prior value, and
  the GPS and the battery level are never touched. In particular a patch holding only
  \<open>ai_status\<close> changes only that field.
\<close>

theorem partial_patch_frame:
  assumes "ENABLE_MANUAL_TRIGGER cfg"
  shows "ai_status (store (mission_patch B cfg (PDict kv) s)) =
           (case map_of kv ''ai_status'' of None \<Rightarrow> ai_status s | Some v \<Rightarrow> PStr (py_str B v))
       \<and> drone_active (store (mission_patch B cfg (PDict kv) s)) =
           (case map_of kv ''drone_active'' of None \<Rightarrow> drone_active s | Some v \<Rightarrow> truthy v)
       \<and> recording_active (store (mission_patch B cfg (PDict kv) s)) =
           (case map_of kv ''recording_active'' of None \<Rightarrow> recording_active s | Some v \<Rightarrow> truthy v)
       \<and> gps_location (store (mission_patch B cfg (PDict kv) s)) = gps_location s
       \<and> battery_level (store (mission_patch B cfg (PDict kv) s)) = battery_level s
       \<and> store (mission_patch B cfg (PDict [(''ai_status'', x)]) s) = s\<lparr>ai_status := PStr (py_str B x)\<rparr>"
  using assms
  by (simp add: mission_patch_def or_empty_dict patch_key_dict Let_def split: option.splits)

theorem partial_patch_frame_witness:
  "store (mission_patch cpython_fragment config_py
       (PDict [(''ai_status'', PNone), (''recording_active'', PInt 1)]) drone_state_init) =
     drone_state_init\<lparr>ai_status := PStr ''None'', recording_active := True\<rparr>"
  using partial_patch_frame [of config_py cpython_fragment
      "[(''ai_status'', PNone), (''recording_active'', PInt 1)]" drone_state_init PNone]
  by (simp add: config_py_def drone_state_init_def cpython_fragment_def)

text \<open>
  C7, where it fails: the payload \<open>{"foo": 1}\<close> holds no recognised field and the store
  is left as it was, yet the response echoes \<open>{"foo": 1}\<close> as \<open>applied\<close>.
\<close>

theorem patch_echo_counterexample:
  "reply (mission_patch cpython_fragment config_py (PDict [(''foo'', PInt 1)]) drone_state_init) =
     Inr \<lparr>status_code = 200,
          body = PDict [(''status'', PStr ''patched''), (''applied'', PDict [(''foo'', PInt 1)])]\<rparr>
   \<and> store (mission_patch cpython_fragment config_py (PDict [(''foo'', PInt 1)]) drone_state_init) =
     drone_state_init"
  by (simp add: mission_patch_def config_py_def or_empty_def patch_key_def)

text \<open>
  C7, amended: with the endpoint enabled, every response of the patch endpoint has
  status 200 and carries as \<open>applied\<close> the request payload itself, as received (the
  empty object for a falsy body): all of its fields, recognised or not, with the values
  before coercion. A JSON object is always answered.
\<close>

theorem patch_echo:
  assumes "ENABLE_MANUAL_TRIGGER cfg"
  shows "(reply (mission_patch B cfg j s) = Inr r \<longrightarrow>
            r = \<lparr>status_code = 200,
                 body = PDict [(''status'', PStr ''patched''), (''applied'', or_empty j)]\<rparr>)
       \<and> reply (mission_patch B cfg (PDict kv) s) =
            Inr \<lparr>status_code = 200,
                 body = PDict [(''status'', PStr ''patched''), (''applied'', PDict kv)]\<rparr>"
  using assms
  by (auto simp add: mission_patch_def or_empty_dict patch_key_dict Let_def split: sum.splits)

theorem patch_echo_witness:
  "reply (mission_patch cpython_fragment config_py
       (PDict [(''ai_status'', PInt 7), (''note'', PStr ''x'')]) drone_state_init) =
     Inr \<lparr>status_code = 200,
          body = PDict [(''status'', PStr ''patched''),
                        (''applied'', PDict [(''ai_status'', PInt 7), (''note'', PStr ''x'')])]\<rparr>"
  using patch_echo [of config_py cpython_fragment
      "PDict [(''ai_status'', PInt 7), (''note'', PStr ''x'')]" drone_state_init
      "\<lparr>status_code = 200,
        body = PDict [(''status'', PStr ''patched''),
                      (''applied'', PDict [(''ai_status'', PInt 7), (''note'', PStr ''x'')])]\<rparr>"
      "[(''ai_status'', PInt 7), (''note'', PStr ''x'')]"]
  by (simp add: config_py_def)

text \<open>
  C8: for every string \<open>st\<close> and every prior store, \<open>update_ai_status st\<close> leaves the
  store that the enabled patch endpoint leaves for the patch \<open>{"ai_status": st}\<close>.
\<close>

theorem update_ai_status_is_patch:
  "ENABLE_MANUAL_TRIGGER cfg \<Longrightarrow>
     store (mission_patch B cfg (PDict [(''ai_status'', PStr st)]) s) = update_ai_status st s"
  by (simp add: mission_patch_def or_empty_dict patch_key_dict update_ai_status_def)

theorem update_ai_status_is_patch_witness:
  "store (mission_patch cpython_fragment config_py
       (PDict [(''ai_status'', PStr ''Human Detected'')]) drone_state_init) =
     update_ai_status ''Human Detected'' drone_state_init
   \<and> ai_status (update_ai_status ''Human Detected'' drone_state_init) = PStr ''Human Detected''"
  using update_ai_status_is_patch [of config_py cpython_fragment "''Human Detected''" drone_state_init]
  by (simp add: config_py_def update_ai_status_def)

subsection \<open>The status is always a string\<close>

lemma mission_patch_is_str:
  "is_str (ai_status s) \<Longrightarrow> is_str (ai_status (store (mission_patch B cfg j s)))"
  by (auto simp add: mission_patch_def Let_def split: sum.splits option.splits)

lemma mission_start_is_str:
  "is_str (ai_status s) \<Longrightarrow> is_str (ai_status (store (mission_start B cfg j s)))"
  by (auto simp add: mission_start_def start_mission_def Let_def split: sum.splits prod.splits)

lemma perform_is_str: "is_str (ai_status s) \<Longrightarrow> is_str (ai_status (perform B cfg s x))"
proof (cases x)
  case (ApiStart j)
  assume "is_str (ai_status s)"
  then show ?thesis unfolding ApiStart perform.simps by (rule mission_start_is_str)
next
  case (ApiPatch j)
  assume "is_str (ai_status s)"
  then show ?thesis unfolding ApiPatch perform.simps by (rule mission_patch_is_str)
qed (simp_all add: start_mission_def reset_mission_def update_ai_status_def mission_state_def
    mission_reset_def)

lemma foldl_perform_is_str:
  "is_str (ai_status s) \<Longrightarrow> is_str (ai_status (foldl (perform B cfg) s ops))"
  by (induction ops arbitrary: s) (simp_all add: perform_is_str)

text \<open>
  C9: \<open>ai_status\<close> starts as the string \<open>Standby\<close> and holds a string after every sequence
  of operations of the second generation, whatever the request bodies are; the patch
  endpoint stores \<open>str\<close> of the value it is given.
\<close>

theorem ai_status_is_str:
  "ai_status drone_state_init = PStr ''Standby''
   \<and> is_str (ai_status (after_operations B cfg ops))
   \<and> ai_status (store (mission_patch B cfg (PDict [(''ai_status'', v)]) s)) =
       (if ENABLE_MANUAL_TRIGGER cfg then PStr (py_str B v) else ai_status s)"
proof (intro conjI)
  show "ai_status drone_state_init = PStr ''Standby''"
    by (simp add: drone_state_init_def)
  show "is_str (ai_status (after_operations B cfg ops))"
    unfolding after_operations_def
    by (rule foldl_perform_is_str) (simp add: drone_state_init_def)
  show "ai_status (store (mission_patch B cfg (PDict [(''ai_status'', v)]) s)) =
       (if ENABLE_MANUAL_TRIGGER cfg then PStr (py_str B v) else ai_status s)"
    by (simp add: mission_patch_def or_empty_def patch_key_def)
qed

theorem ai_status_is_str_witness:
  "is_str (ai_status (after_operations cpython_fragment config_py
      [ApiStart PNone, ApiPatch (PDict [(''ai_status'', PBool True)]), ApiState]))
   \<and> ai_status (after_operations cpython_fragment config_py
      [ApiStart PNone, ApiPatch (PDict [(''ai_status'', PBool True)]), ApiState]) = PStr ''True''"
  using ai_status_is_str [of cpython_fragment config_py
      "[ApiStart PNone, ApiPatch (PDict [(''ai_status'', PBool True)]), ApiState]"]
  by (simp add: after_operations_def mission_start_def mission_start_gps_def start_mission_def
      mission_state_def mission_patch_def config_py_def or_empty_def patch_key_def
      cpython_fragment_def float_if_present_def dict_get_def is_jetson_mode_def)

subsection \<open>A latitude of zero\<close>

text \<open>
  C10: for a start request whose latitude is the float 0.0 and whose longitude converts
  (or is null or missing), the first generation stores and returns the pair with
  latitude 0.0 and yet reports \<open>without GPS (unavailable)\<close>, because it tests the
  truth value of the stored latitude; the second generation tests \<open>lat is not None\<close> and
  reports \<open>with GPS\<close>.
\<close>

theorem zero_latitude_note:
  assumes "dict_get kv ''lat'' = PFloat (Fin 0)"
    and "float_if_present B (dict_get kv ''lon'') = Inr l"
  shows "reply (start_sos B (PDict kv) s) =
           Inr \<lparr>status_code = 200,
                body = PDict [(''message'', PStr ''SOS received. Drone activating without GPS (unavailable).''),
                              (''gps'', PDict [(''lat'', PFloat (Fin 0)), (''lon'', float_json l)])]\<rparr>
       \<and> v1_gps_location (store (start_sos B (PDict kv) s)) = \<lparr>lat = Some (Fin 0), lon = l\<rparr>
       \<and> reply (mission_start B cfg (PDict kv) d) =
           Inr \<lparr>status_code = 200,
                body = PDict [(''status'', PStr ''mission_active''),
                              (''message'', PStr ''Mission started with GPS.''),
                              (''gps'', PDict [(''lat'', PFloat (Fin 0)), (''lon'', float_json l)])]\<rparr>"
proof -
  have la: "float_if_present B (dict_get kv ''lat'') = Inr (Some (Fin 0))"
    using assms(1) by (simp add: float_if_present_def)
  have v1: "start_sos_gps B (PDict kv) s =
      Inr (s\<lparr>v1_gps_location := \<lparr>lat = Some (Fin 0), lon = l\<rparr>\<rparr>)"
    by (simp add: start_sos_gps_def start_sos_try_def or_empty_dict la assms(2))
  have v11: "mission_start_gps B (PDict kv) = Inr (Some (Fin 0), l)"
    by (simp add: mission_start_gps_def la assms(2))
  show ?thesis
    by (simp add: start_sos_def v1 mission_start_def or_empty_dict v11 start_mission_def
        gps_json_def float_json_def opt_truthy_def)
qed

theorem zero_latitude_note_witness:
  "reply (start_sos cpython_fragment (PDict [(''lat'', PFloat (Fin 0)), (''lon'', PFloat (Fin (5 / 2)))])
       backend_state_init) =
     Inr \<lparr>status_code = 200,
          body = PDict [(''message'', PStr ''SOS received. Drone activating without GPS (unavailable).''),
                        (''gps'', PDict [(''lat'', PFloat (Fin 0)), (''lon'', PFloat (Fin (5 / 2)))])]\<rparr>
   \<and> reply (mission_start cpython_fragment config_py
       (PDict [(''lat'', PFloat (Fin 0)), (''lon'', PFloat (Fin (5 / 2)))]) drone_state_init) =
     Inr \<lparr>status_code = 200,
          body = PDict [(''status'', PStr ''mission_active''),
                        (''message'', PStr ''Mission started with GPS.''),
                        (''gps'', PDict [(''lat'', PFloat (Fin 0)), (''lon'', PFloat (Fin (5 / 2)))])]\<rparr>"
  using zero_latitude_note [of "[(''lat'', PFloat (Fin 0)), (''lon'', PFloat (Fin (5 / 2)))]"
      cpython_fragment "Some (Fin (5 / 2))" backend_state_init config_py drone_state_init]
  by (simp add: dict_get_def float_if_present_def float_json_def)

end
